theory Spec2Isabelle
  imports Complex_Main "HOL-Library.Char_ord" "HOL-Library.List_Lexorder"
begin

section \<open>Sales pipeline ingestion and scenario arithmetic\<close>

text \<open>
  A shallow embedding of \<^verbatim>\<open>src/utils/excelParser.js\<close>: the two upload parsers
  (the richer fifteen-column one and the older seven-column one) and the dashboard
  arithmetic (\<^verbatim>\<open>aggregate\<close>, \<^verbatim>\<open>applyScenario\<close>, the YTD/MTD/forecast figures of
  \<^verbatim>\<open>Home\<close>).

  Numbers are modelled by \<^typ>\<open>real\<close> (figures) and \<^typ>\<open>int\<close> (weeks, months,
  years). The additions that accumulate totals (the base figures of the accounts, the
  buckets of \<^verbatim>\<open>aggregate\<close>) are rounded as binary64 additions are, since what is claimed
  of them depends on the order of summation; products and quotients are exact, and
  \<^verbatim>\<open>NaN\<close> and the infinities are outside the model. Text is \<^typ>\<open>string\<close>, the UTF-8 bytes
  of the JavaScript string.
\<close>

subsection \<open>Cell values and the host environment\<close>

text \<open>
  A cell of a row produced by \<^verbatim>\<open>XLSX.utils.sheet_to_json\<close> is a string, a number or
  a boolean; a blank cell is an absent key. A row keeps its keys in order, as
  \<^verbatim>\<open>Object.keys\<close> reads them.
\<close>

datatype jsval = JStr string | JNum real | JBool bool

type_synonym row = "(string \<times> jsval) list"

text \<open>
  What the JavaScript host supplies and the repository does not define: number
  formatting, \<^verbatim>\<open>parseInt\<close> and \<^verbatim>\<open>parseFloat\<close> on strings (\<open>None\<close> is \<^verbatim>\<open>NaN\<close>), the
  successive results of \<^verbatim>\<open>Math.random()\<close>, and the clock (\<^verbatim>\<open>new Date()\<close>).
\<close>

record host =
  numToString :: "real \<Rightarrow> string"
  parseIntStr :: "string \<Rightarrow> int option"
  parseFloatStr :: "string \<Rightarrow> real option"
  mathRandom :: "nat \<Rightarrow> real"
  nowYear :: int
  nowMonth :: int
  nowWeek :: int

fun truthy :: "jsval \<Rightarrow> bool" where
  "truthy (JStr s) = (s \<noteq> [])"
| "truthy (JNum x) = (x \<noteq> 0)"
| "truthy (JBool b) = b"

text \<open>\<^verbatim>\<open>row[k] || d\<close>: the cell when it is present and truthy, else \<open>d\<close>.\<close>

fun orElse :: "jsval option \<Rightarrow> jsval \<Rightarrow> jsval" where
  "orElse None d = d"
| "orElse (Some v) d = (if truthy v then v else d)"

text \<open>\<^verbatim>\<open>String(v)\<close>.\<close>

fun jsString :: "host \<Rightarrow> jsval \<Rightarrow> string" where
  "jsString h (JStr s) = s"
| "jsString h (JNum x) = numToString h x"
| "jsString h (JBool b) = (if b then ''true'' else ''false'')"

text \<open>\<^verbatim>\<open>parseInt(v)\<close> converts its argument to a string first.\<close>

definition jsParseInt :: "host \<Rightarrow> jsval \<Rightarrow> int option" where
  "jsParseInt h v = parseIntStr h (jsString h v)"

text \<open>\<^verbatim>\<open>parseInt(row[k]) || d\<close>: \<^verbatim>\<open>parseInt(undefined)\<close> is \<^verbatim>\<open>NaN\<close>, and both \<^verbatim>\<open>NaN\<close>
  and \<open>0\<close> are falsy.\<close>

definition parseIntOr :: "host \<Rightarrow> jsval option \<Rightarrow> int \<Rightarrow> int" where
  "parseIntOr h c d =
     (case c of None \<Rightarrow> d
      | Some v \<Rightarrow> (case jsParseInt h v of None \<Rightarrow> d
                   | Some n \<Rightarrow> if n = 0 then d else n))"

subsection \<open>Strings\<close>

text \<open>\<^verbatim>\<open>s.toLowerCase()\<close> on the letters A to Z; every other byte is kept. No character
  beyond ASCII has a lower case that puts one of the letters of the month names where the
  model has none (only U+0130 and U+212A give an ASCII letter, \<^verbatim>\<open>i\<close> followed by U+0307
  and \<^verbatim>\<open>k\<close>), so the matches against the month tables are those of the source.\<close>

definition toLowerChar :: "char \<Rightarrow> char" where
  "toLowerChar c =
     (case map_of (zip ''ABCDEFGHIJKLMNOPQRSTUVWXYZ'' ''abcdefghijklmnopqrstuvwxyz'') c of
        Some l \<Rightarrow> l | None \<Rightarrow> c)"

definition toLowerCase :: "string \<Rightarrow> string" where
  "toLowerCase s = map toLowerChar s"

fun startsWith :: "string \<Rightarrow> string \<Rightarrow> bool" where
  "startsWith s [] = True"
| "startsWith [] (c # t) = False"
| "startsWith (a # s) (c # t) = (a = c \<and> startsWith s t)"

text \<open>\<^verbatim>\<open>s.includes(t)\<close>: \<open>t\<close> occurs in \<open>s\<close> as a contiguous substring.\<close>

fun includesStr :: "string \<Rightarrow> string \<Rightarrow> bool" where
  "includesStr [] t = (t = [])"
| "includesStr (a # s) t = (startsWith (a # s) t \<or> includesStr s t)"

text \<open>\<^verbatim>\<open>xs.join(sep)\<close>.\<close>

fun join :: "string \<Rightarrow> string list \<Rightarrow> string" where
  "join sep [] = []"
| "join sep [x] = x"
| "join sep (x # y # ys) = x @ sep @ join sep (y # ys)"

text \<open>\<^verbatim>\<open>[...new Set(xs)]\<close>: the distinct elements in order of first occurrence.\<close>

definition uniq :: "'a list \<Rightarrow> 'a list" where
  "uniq xs = rev (remdups (rev xs))"

text \<open>Text is held as the UTF-8 bytes of the JavaScript string, so a character beyond
  ASCII is a sequence of two to four bytes. The characters of the regular expression
  class \<^verbatim>\<open>\s\<close>: tab, line feed, vertical tab, form feed, carriage return, space, U+00A0,
  U+1680, U+2000 to U+200A, U+2028, U+2029, U+202F, U+205F, U+3000 and U+FEFF.\<close>

definition whiteSpace :: "string list" where
  "whiteSpace =
     [[CHR 0x09], [CHR 0x0A], [CHR 0x0B], [CHR 0x0C], [CHR 0x0D], [CHR 0x20],
      [CHR 0xC2, CHR 0xA0],
      [CHR 0xE1, CHR 0x9A, CHR 0x80],
      [CHR 0xE2, CHR 0x80, CHR 0x80], [CHR 0xE2, CHR 0x80, CHR 0x81],
      [CHR 0xE2, CHR 0x80, CHR 0x82], [CHR 0xE2, CHR 0x80, CHR 0x83],
      [CHR 0xE2, CHR 0x80, CHR 0x84], [CHR 0xE2, CHR 0x80, CHR 0x85],
      [CHR 0xE2, CHR 0x80, CHR 0x86], [CHR 0xE2, CHR 0x80, CHR 0x87],
      [CHR 0xE2, CHR 0x80, CHR 0x88], [CHR 0xE2, CHR 0x80, CHR 0x89],
      [CHR 0xE2, CHR 0x80, CHR 0x8A],
      [CHR 0xE2, CHR 0x80, CHR 0xA8], [CHR 0xE2, CHR 0x80, CHR 0xA9],
      [CHR 0xE2, CHR 0x80, CHR 0xAF],
      [CHR 0xE2, CHR 0x81, CHR 0x9F],
      [CHR 0xE3, CHR 0x80, CHR 0x80],
      [CHR 0xEF, CHR 0xBB, CHR 0xBF]]"

text \<open>\<^verbatim>\<open>s.replace(/[...]/g, '')\<close>: every character of the class removed, the class given
  by the encodings of its characters. An encoding starts at a leading byte only, so the
  scan over bytes removes whole characters and nothing else.\<close>

fun stripClass :: "string list \<Rightarrow> string \<Rightarrow> string" where
  "stripClass cls [] = []"
| "stripClass cls (a # s) =
     (case List.find (\<lambda>p. p \<noteq> [] \<and> startsWith (a # s) p) cls of
        Some p \<Rightarrow> stripClass cls (drop (length p - 1) s)
      | None \<Rightarrow> a # stripClass cls s)"

text \<open>The peso sign U+20B1.\<close>

definition peso :: string where
  "peso = [CHR 0xE2, CHR 0x82, CHR 0xB1]"

text \<open>\<^verbatim>\<open>s.replace(/[,\s]/g, '')\<close>, and the same with the peso sign added to the
  character class.\<close>

definition cleanVolume :: "string \<Rightarrow> string" where
  "cleanVolume s = stripClass ('','' # whiteSpace) s"

definition cleanRevenue :: "string \<Rightarrow> string" where
  "cleanRevenue s = stripClass (peso # '','' # whiteSpace) s"

subsection \<open>Records\<close>

record figures =
  revenue :: real
  volume :: real

text \<open>The weekly record of the older parser and of the older sample generator.\<close>

record basic_record = figures +
  week :: int
  year :: int
  account :: string
  industry :: string
  area :: string
  agent :: string
  status :: string

text \<open>The weekly record of the richer parser.\<close>

record weekly_record = basic_record +
  salesCategory :: string
  city :: string
  territoryCode :: string
  startMonth :: int
  startYear :: int
  yearsOfEngagement :: int
  endYear :: int

text \<open>An element of \<^verbatim>\<open>accountsData\<close>, read in the source through \<^verbatim>\<open>acc.\<close>\<close>

record account_data =
  acc_account :: string
  acc_industry :: string
  acc_salesCategory :: string
  acc_city :: string
  acc_territoryCode :: string
  acc_agent :: string
  acc_status :: string
  acc_teamDesignation :: string
  acc_monthlyRevenue :: real
  acc_monthlyVolume :: real
  acc_startMonth :: int
  acc_startYear :: int
  acc_yearsOfEngagement :: int
  acc_endYear :: int

text \<open>An element of \<^verbatim>\<open>accounts\<close>; \<^verbatim>\<open>acct_id\<close> is its \<^verbatim>\<open>id\<close>.\<close>

record basic_account =
  acct_id :: nat
  name :: string
  baseRev :: real
  baseVol :: real
  acct_industry :: string
  acct_area :: string
  acct_agent :: string
  acct_status :: string

record rich_account = basic_account +
  acct_salesCategory :: string
  acct_city :: string
  acct_territoryCode :: string
  acct_startMonth :: int
  acct_startYear :: int
  acct_yearsOfEngagement :: int
  acct_endYear :: int

record meta =
  industries :: "string list"
  salesCategories :: "string list"
  cities :: "string list"
  areas :: "string list"
  territoryCodes :: "string list"
  agents :: "string list"
  statuses :: "string list"
  metaYear :: int

record date_range =
  minWeek :: int
  maxWeek :: int
  years :: "int list"

record info =
  totalRows :: nat
  originalColumns :: "string list"
  dateRange :: date_range

record parse_result =
  weekly :: "weekly_record list"
  accounts :: "rich_account list"
  meta :: meta
  info :: info

text \<open>The result of the older parser.\<close>

record basic_meta =
  b_industries :: "string list"
  b_areas :: "string list"
  b_agents :: "string list"
  b_statuses :: "string list"
  b_metaYear :: int

record basic_result =
  b_weekly :: "basic_record list"
  b_accounts :: "basic_account list"
  b_meta :: basic_meta
  b_info :: info

subsection \<open>Shared helpers of the two parsers\<close>

text \<open>The sum of two numbers as the host computes it: the exact sum rounded to the nearest
  binary64 value, a tie going to the even significand. The exponent is unbounded here:
  a sum beyond the largest double is infinite in the host and outside the model, and a
  sum of two doubles below the normal range is exact in the host and here alike.\<close>

definition roundEven :: "real \<Rightarrow> int" where
  "roundEven y =
     (let n = \<lfloor>y\<rfloor>; d = y - of_int n
      in if d < 1 / 2 then n else if 1 / 2 < d then n + 1
         else if even n then n else n + 1)"

definition roundDouble :: "real \<Rightarrow> real" where
  "roundDouble x =
     (if x = 0 then 0
      else (let e = \<lfloor>log 2 \<bar>x\<bar>\<rfloor>; q = 2 powr of_int (e - 52)
            in of_int (roundEven (x / q)) * q))"

definition dadd :: "real \<Rightarrow> real \<Rightarrow> real" where
  "dadd a b = roundDouble (a + b)"


text \<open>\<^verbatim>\<open>xs.reduce((sum, d) => sum + f(d), 0)\<close>, each addition rounded.\<close>

definition reduceSumD :: "('a \<Rightarrow> real) \<Rightarrow> 'a list \<Rightarrow> real" where
  "reduceSumD f xs = foldl (\<lambda>sum d. dadd sum (f d)) 0 xs"



text \<open>The same fold in exact arithmetic, in which the year-to-date figures of the
  dashboard are stated.\<close>

definition reduceSum :: "('a \<Rightarrow> real) \<Rightarrow> 'a list \<Rightarrow> real" where
  "reduceSum f xs = foldl (\<lambda>sum d. sum + f d) 0 xs"

text \<open>\<^verbatim>\<open>Math.max(...xs)\<close> and \<^verbatim>\<open>Math.min(...xs)\<close> on a non-empty array; with no argument
  they are infinite, which \<^typ>\<open>int\<close> does not hold, and the parsers reject empty data
  before they call them. The bound an engine puts on the number of arguments of one call
  is not modelled.\<close>

fun mathMax :: "int list \<Rightarrow> int" where
  "mathMax (x # xs) = fold max xs x"

fun mathMin :: "int list \<Rightarrow> int" where
  "mathMin (x # xs) = fold min xs x"

text \<open>\<^verbatim>\<open>[...new Set(xs)].sort()\<close>: the default sort compares the elements as strings,
  so numbers are ordered by their decimal text. The order of the bytes is the order of the
  UTF-16 code units for text within the Basic Multilingual Plane.\<close>

definition uniqueSorted :: "string list \<Rightarrow> string list" where
  "uniqueSorted xs = sort (uniq xs)"

definition uniqueSortedYears :: "host \<Rightarrow> int list \<Rightarrow> int list" where
  "uniqueSortedYears h ys = sort_key (\<lambda>y. numToString h (real_of_int y)) (uniq ys)"

definition infoOf :: "host \<Rightarrow> 'a basic_record_scheme list \<Rightarrow> string list \<Rightarrow> info" where
  "infoOf h transformedData fileColumns =
     \<lparr> totalRows = length transformedData,
       originalColumns = fileColumns,
       dateRange = \<lparr> minWeek = mathMin (map week transformedData),
                     maxWeek = mathMax (map week transformedData),
                     years = uniqueSortedYears h (map year transformedData) \<rparr> \<rparr>"

text \<open>The figures \<^verbatim>\<open>baseRev\<close> and \<^verbatim>\<open>baseVol\<close> of an account: the records bearing its name,
  summed from left to right.\<close>

definition withBase ::
  "'a basic_record_scheme list \<Rightarrow> 'b basic_account_scheme \<Rightarrow> 'b basic_account_scheme" where
  "withBase transformedData a =
     (let accountData = filter (\<lambda>d. account d = name a) transformedData
      in a\<lparr> baseRev := reduceSumD revenue accountData,
            baseVol := reduceSumD volume accountData \<rparr>)"

text \<open>\<^verbatim>\<open>accountMap\<close>, a \<^verbatim>\<open>Map\<close> in insertion order: a record adds an account when no
  earlier record bears its name.\<close>

fun accountMapOf ::
  "(nat \<Rightarrow> 'a basic_record_scheme \<Rightarrow> 'b basic_account_scheme) \<Rightarrow>
   'a basic_record_scheme list \<Rightarrow> 'b basic_account_scheme list \<Rightarrow> 'b basic_account_scheme list"
where
  "accountMapOf mk [] accountMap = accountMap"
| "accountMapOf mk (d # ds) accountMap =
     accountMapOf mk ds
       (if list_ex (\<lambda>a. name a = account d) accountMap then accountMap
        else accountMap @ [mk (length accountMap + 1) d])"

definition accountsOf ::
  "(nat \<Rightarrow> 'a basic_record_scheme \<Rightarrow> 'b basic_account_scheme) \<Rightarrow>
   'a basic_record_scheme list \<Rightarrow> 'b basic_account_scheme list" where
  "accountsOf mk transformedData =
     map (withBase transformedData) (accountMapOf mk transformedData [])"

subsection \<open>The richer parser: column resolver\<close>

definition mappedColumns :: "string list" where
  "mappedColumns =
     [''Account Name'', ''Industry'', ''Sales Category'', ''Sales Stage'', ''City'',
      ''Territory Code'', ''Sales Agent'', ''Committed Monthly Volume'',
      ''Committed FY Volume'', ''Monthly Sales Forecast'', ''Team Designation'',
      ''Forecasted TXN Start (Month)'', ''Forecasted TXN Start (Year)'',
      ''Years of Engagement'', ''Sales Remarks / Contact History'']"

definition foundColumns :: "string list \<Rightarrow> string list" where
  "foundColumns fileColumns =
     filter (\<lambda>col. list_ex (\<lambda>fileCol. includesStr fileCol col \<or> includesStr col fileCol)
                      fileColumns)
            mappedColumns"

definition notEnoughColumns :: "string list \<Rightarrow> string list \<Rightarrow> string" where
  "notEnoughColumns found fileColumns =
     ''Could not find enough expected columns. Found: '' @ join '', '' found
       @ ''. Available: '' @ join '', '' fileColumns"

subsection \<open>The richer parser: row normalizer\<close>

definition monthMap :: "(string \<times> int) list" where
  "monthMap =
     [(''jan'', 1), (''feb'', 2), (''mar'', 3), (''apr'', 4),
      (''may'', 5), (''jun'', 6), (''jul'', 7), (''aug'', 8),
      (''sep'', 9), (''oct'', 10), (''nov'', 11), (''dec'', 12),
      (''january'', 1), (''february'', 2), (''march'', 3), (''april'', 4),
      (''june'', 6), (''july'', 7), (''august'', 8),
      (''september'', 9), (''october'', 10), (''november'', 11), (''december'', 12)]"

definition parseMonthFromText :: "host \<Rightarrow> jsval \<Rightarrow> int" where
  "parseMonthFromText h monthStr =
     (case (case monthStr of
              JStr s \<Rightarrow> List.find (\<lambda>(m, num). includesStr (toLowerCase s) m) monthMap
            | _ \<Rightarrow> None) of
        Some (m, num) \<Rightarrow> num
      | None \<Rightarrow>
          (case jsParseInt h monthStr of
             Some num \<Rightarrow> if num \<ge> 1 \<and> num \<le> 12 then num else nowMonth h
           | None \<Rightarrow> nowMonth h))"

text \<open>The start month of a row, lines 101 to 103.\<close>

definition startMonthOf :: "host \<Rightarrow> row \<Rightarrow> int" where
  "startMonthOf h r =
     parseMonthFromText h
       (orElse (map_of r ''Forecasted TXN Start (Month)'') (JStr ''August''))"

text \<open>\<^verbatim>\<open>String(row[k] || d)\<close>.\<close>

definition textField :: "host \<Rightarrow> row \<Rightarrow> string \<Rightarrow> string \<Rightarrow> string" where
  "textField h r k d = jsString h (orElse (map_of r k) (JStr d))"

text \<open>The figure read from a cell, \<open>0\<close> when the cell is absent or falsy or its cleaned
  text does not parse to a positive number.\<close>

definition parsedFigure :: "host \<Rightarrow> (string \<Rightarrow> string) \<Rightarrow> jsval option \<Rightarrow> real" where
  "parsedFigure h clean c =
     (case c of
        None \<Rightarrow> 0
      | Some v \<Rightarrow>
          if truthy v then
            (case parseFloatStr h (clean (jsString h v)) of
               None \<Rightarrow> 0
             | Some parsed \<Rightarrow> if parsed > 0 then parsed else 0)
          else 0)"

definition parsedRevenue :: "host \<Rightarrow> row \<Rightarrow> real" where
  "parsedRevenue h r = parsedFigure h cleanRevenue (map_of r ''Monthly Sales Forecast'')"

definition parsedVolume :: "host \<Rightarrow> row \<Rightarrow> real" where
  "parsedVolume h r = parsedFigure h cleanVolume (map_of r ''Committed Monthly Volume'')"

text \<open>One pass of the \<^verbatim>\<open>forEach\<close> body over row \<open>index\<close>; \<open>n\<close> counts the calls of
  \<^verbatim>\<open>Math.random()\<close> made so far. With cells that are strings, numbers or booleans no
  statement of the body throws, so the \<^verbatim>\<open>catch\<close> branch that skips a row is not taken.\<close>

definition normalizeRow :: "host \<Rightarrow> nat \<Rightarrow> row \<Rightarrow> nat \<Rightarrow> account_data \<times> nat" where
  "normalizeRow h index r n =
     (let startYear = parseIntOr h (map_of r ''Forecasted TXN Start (Year)'') (nowYear h);
          startMonth = startMonthOf h r;
          yearsOfEngagement = parseIntOr h (map_of r ''Years of Engagement'') 1;
          (monthlyRevenue, n1) =
             (if parsedRevenue h r = 0 then (500000 + mathRandom h n * 2000000, n + 1)
              else (parsedRevenue h r, n));
          (monthlyVolume, n2) =
             (if parsedVolume h r = 0 then (50 + mathRandom h n1 * 500, n1 + 1)
              else (parsedVolume h r, n1))
      in (\<lparr> acc_account =
               textField h r ''Account Name''
                 (''Account-'' @ numToString h (real (index + 1))),
             acc_industry = textField h r ''Industry'' ''Unknown'',
             acc_salesCategory = textField h r ''Sales Category'' ''Unknown'',
             acc_city = textField h r ''City'' ''Unknown'',
             acc_territoryCode = textField h r ''Territory Code'' ''Unknown'',
             acc_agent = textField h r ''Sales Agent'' ''Unknown'',
             acc_status = textField h r ''Sales Stage'' ''Prospect'',
             acc_teamDesignation = textField h r ''Team Designation'' ''Unknown'',
             acc_monthlyRevenue = monthlyRevenue,
             acc_monthlyVolume = monthlyVolume,
             acc_startMonth = startMonth,
             acc_startYear = startYear,
             acc_yearsOfEngagement = yearsOfEngagement,
             acc_endYear = startYear + yearsOfEngagement - 1 \<rparr>, n2))"

fun normalizeRows :: "host \<Rightarrow> nat \<Rightarrow> row list \<Rightarrow> nat \<Rightarrow> account_data list" where
  "normalizeRows h index [] n = []"
| "normalizeRows h index (r # rs) n =
     (case normalizeRow h index r n of
        (acc, n') \<Rightarrow> acc # normalizeRows h (index + 1) rs n')"

subsection \<open>The richer parser: temporal expander\<close>

text \<open>The body of the inner loop, lines 204 to 258: the record of week \<open>w\<close> for one
  account.\<close>

definition weekRecord :: "int \<Rightarrow> account_data \<Rightarrow> weekly_record" where
  "weekRecord w acc =
     (let weekMonth = \<lceil>real_of_int w / 4.345\<rceil>;
          currentYear = acc_startYear acc;
          shouldContribute = (weekMonth \<ge> acc_startMonth acc \<and> currentYear \<le> acc_endYear acc);
          seasonalFactor = 1 + 0.12 * sin ((2 * pi * real_of_int w) / 52);
          weeklyRevenue =
            (if shouldContribute then (acc_monthlyRevenue acc / 4.345) * seasonalFactor else 0);
          weeklyVolume =
            (if shouldContribute then (acc_monthlyVolume acc / 4.345) * seasonalFactor else 0)
      in \<lparr> revenue = weeklyRevenue,
           volume = weeklyVolume,
           week = w,
           year = currentYear,
           account = acc_account acc,
           industry = acc_industry acc,
           area = acc_teamDesignation acc,
           agent = acc_agent acc,
           status = acc_status acc,
           salesCategory = acc_salesCategory acc,
           city = acc_city acc,
           territoryCode = acc_territoryCode acc,
           startMonth = acc_startMonth acc,
           startYear = acc_startYear acc,
           yearsOfEngagement = acc_yearsOfEngagement acc,
           endYear = acc_endYear acc \<rparr>)"

text \<open>\<^verbatim>\<open>for (let w = 1; w <= 52; w++) accountsData.forEach(...)\<close>.\<close>

definition expandWeeks :: "account_data list \<Rightarrow> weekly_record list" where
  "expandWeeks accountsData =
     concat (map (\<lambda>w. map (weekRecord w) accountsData) [1..52])"

subsection \<open>The richer parser: accounts, metadata and the whole parse\<close>

definition richAccount :: "nat \<Rightarrow> weekly_record \<Rightarrow> rich_account" where
  "richAccount i d =
     \<lparr> acct_id = i, name = account d, baseRev = 0, baseVol = 0,
       acct_industry = industry d, acct_area = area d, acct_agent = agent d,
       acct_status = status d,
       acct_salesCategory = salesCategory d, acct_city = city d,
       acct_territoryCode = territoryCode d,
       acct_startMonth = startMonth d, acct_startYear = startYear d,
       acct_yearsOfEngagement = yearsOfEngagement d, acct_endYear = endYear d \<rparr>"

definition metaOf :: "host \<Rightarrow> weekly_record list \<Rightarrow> meta" where
  "metaOf h transformedData =
     \<lparr> industries = uniqueSorted (map industry transformedData),
       salesCategories = uniqueSorted (map salesCategory transformedData),
       cities = uniqueSorted (map city transformedData),
       areas = uniqueSorted (map area transformedData),
       territoryCodes = uniqueSorted (map territoryCode transformedData),
       agents = uniqueSorted (map agent transformedData),
       statuses = uniqueSorted (map status transformedData),
       metaYear = mathMax (uniqueSortedYears h (map year transformedData)) \<rparr>"

text \<open>\<^verbatim>\<open>parseExcelFile\<close> of the richer parser from \<^verbatim>\<open>jsonData\<close> on; \<open>Inl\<close> carries the
  message of the rejection. Reading the file and the sheet is the library's part.\<close>

definition parseExcelFile :: "host \<Rightarrow> row list \<Rightarrow> string + parse_result" where
  "parseExcelFile h jsonData =
     (case jsonData of
        [] \<Rightarrow> Inl ''Excel file is empty''
      | first # rest \<Rightarrow>
          (let fileColumns = map fst first;
               found = foundColumns fileColumns
           in if length found < 2 then Inl (notEnoughColumns found fileColumns)
              else
                (let accountsData = normalizeRows h 0 jsonData 0;
                     transformedData = expandWeeks accountsData
                 in if length transformedData = 0
                    then Inl ''No valid data rows found after transformation''
                    else Inr \<lparr> weekly = transformedData,
                               accounts = accountsOf richAccount transformedData,
                               meta = metaOf h transformedData,
                               info = infoOf h transformedData fileColumns \<rparr>)))"

subsection \<open>The older parser\<close>

definition mappedColumns0 :: "string list" where
  "mappedColumns0 =
     [''Account Name'', ''Industry'', ''Sales Stage'', ''Area'', ''Sales Rep'',
      ''Committed Monthly Vol'', ''Monthly Sales Report Prep'']"

text \<open>\<^verbatim>\<open>mappedColumns.filter(col => fileColumns.includes(col))\<close>: \<^verbatim>\<open>includes\<close> of an array
  is membership.\<close>

definition foundColumns0 :: "string list \<Rightarrow> string list" where
  "foundColumns0 fileColumns = filter (\<lambda>col. col \<in> set fileColumns) mappedColumns0"

definition notEnoughColumns0 :: "string list \<Rightarrow> string" where
  "notEnoughColumns0 found =
     ''Could not find enough expected columns. Found: '' @ join '', '' found"

definition weekMap :: "(string \<times> int) list" where
  "weekMap =
     [(''January'', 1), (''February'', 5), (''March'', 9), (''April'', 13),
      (''May'', 17), (''June'', 21), (''July'', 26), (''August'', 30),
      (''September'', 35), (''October'', 39), (''November'', 44), (''December'', 48)]"

text \<open>The week the clock gives when no month name is found is \<^verbatim>\<open>nowWeek\<close>.\<close>

definition getWeekFromMonth :: "host \<Rightarrow> jsval \<Rightarrow> int" where
  "getWeekFromMonth h monthStr =
     (case (case monthStr of
              JStr s \<Rightarrow>
                List.find (\<lambda>(m, wk). includesStr (toLowerCase s) (toLowerCase m)) weekMap
            | _ \<Rightarrow> None) of
        Some (m, wk) \<Rightarrow> wk
      | None \<Rightarrow> nowWeek h)"

text \<open>\<^verbatim>\<open>s.replace(/[...,\s]/g, '')\<close> of the older parser, whose character class holds the
  three characters U+00E2, U+201A and U+00B1, the comma and white space.\<close>

definition cleanRevenue0 :: "string \<Rightarrow> string" where
  "cleanRevenue0 s =
     stripClass
       ([CHR 0xC3, CHR 0xA2] # [CHR 0xE2, CHR 0x80, CHR 0x9A] # [CHR 0xC2, CHR 0xB1]
          # '','' # whiteSpace) s"

text \<open>\<^verbatim>\<open>parseFloat(s) || d\<close>.\<close>

definition parseFloatTruthy :: "host \<Rightarrow> string \<Rightarrow> real option" where
  "parseFloatTruthy h s =
     (case parseFloatStr h s of None \<Rightarrow> None | Some x \<Rightarrow> if x = 0 then None else Some x)"

definition revenueText0 :: "host \<Rightarrow> row \<Rightarrow> string" where
  "revenueText0 h r =
     cleanRevenue0
       (jsString h
         (orElse (map_of r ''Monthly Sales Report Prep'')
           (orElse (map_of r ''Committed FY Volu'') (JStr ''0''))))"

definition volumeText0 :: "host \<Rightarrow> row \<Rightarrow> string" where
  "volumeText0 h r =
     cleanVolume (jsString h (orElse (map_of r ''Committed Monthly Vol'') (JStr ''0'')))"

definition normalizeRow0 :: "host \<Rightarrow> nat \<Rightarrow> row \<Rightarrow> nat \<Rightarrow> basic_record \<times> nat" where
  "normalizeRow0 h index r n =
     (let year = parseIntOr h (map_of r ''Year of Engagement'') (nowYear h);
          weekSource =
            orElse
              (map_of r
                ''Expected/Forecasted TXN Start (Year Years of Engageme Committed Monthly Vol Committed FY Volu Monthly Sales Report Prep Territory Code'')
              (orElse (map_of r ''Expected/Forecasted TXN Start'') (JStr ''August''));
          week = getWeekFromMonth h weekSource;
          (revenue, n1) =
             (case parseFloatTruthy h (revenueText0 h r) of
                Some x \<Rightarrow> (x, n)
              | None \<Rightarrow> (mathRandom h n * 1000000 + 100000, n + 1));
          (volume, n2) =
             (case parseFloatTruthy h (volumeText0 h r) of
                Some x \<Rightarrow> (x, n1)
              | None \<Rightarrow> (mathRandom h n1 * 500 + 50, n1 + 1))
      in (\<lparr> revenue = revenue,
             volume = volume,
             week = week,
             year = year,
             account =
               textField h r ''Account Name''
                 (''Account-'' @ numToString h (real (index + 1))),
             industry = textField h r ''Industry'' ''Unknown'',
             area = textField h r ''Area'' ''Unknown'',
             agent = textField h r ''Sales Rep'' ''Unknown'',
             status = textField h r ''Sales Stage'' ''Prospect'' \<rparr>, n2))"

fun normalizeRows0 :: "host \<Rightarrow> nat \<Rightarrow> row list \<Rightarrow> nat \<Rightarrow> basic_record list" where
  "normalizeRows0 h index [] n = []"
| "normalizeRows0 h index (r # rs) n =
     (case normalizeRow0 h index r n of
        (d, n') \<Rightarrow> d # normalizeRows0 h (index + 1) rs n')"

definition basicAccount :: "nat \<Rightarrow> basic_record \<Rightarrow> basic_account" where
  "basicAccount i d =
     \<lparr> acct_id = i, name = account d, baseRev = 0, baseVol = 0,
       acct_industry = industry d, acct_area = area d, acct_agent = agent d,
       acct_status = status d \<rparr>"

definition metaOf0 :: "host \<Rightarrow> basic_record list \<Rightarrow> basic_meta" where
  "metaOf0 h transformedData =
     \<lparr> b_industries = uniqueSorted (map industry transformedData),
       b_areas = uniqueSorted (map area transformedData),
       b_agents = uniqueSorted (map agent transformedData),
       b_statuses = uniqueSorted (map status transformedData),
       b_metaYear = mathMax (uniqueSortedYears h (map year transformedData)) \<rparr>"

definition parseExcelFile0 :: "host \<Rightarrow> row list \<Rightarrow> string + basic_result" where
  "parseExcelFile0 h jsonData =
     (case jsonData of
        [] \<Rightarrow> Inl ''Excel file is empty''
      | first # rest \<Rightarrow>
          (let fileColumns = map fst first;
               found = foundColumns0 fileColumns
           in if length found < 3 then Inl (notEnoughColumns0 found)
              else
                (let transformedData = normalizeRows0 h 0 jsonData 0
                 in if length transformedData = 0
                    then Inl ''No valid data rows found after transformation''
                    else Inr \<lparr> b_weekly = transformedData,
                               b_accounts = accountsOf basicAccount transformedData,
                               b_meta = metaOf0 h transformedData,
                               b_info = infoOf h transformedData fileColumns \<rparr>)))"

subsection \<open>The dashboard: aggregation\<close>


definition getMonthName :: "int \<Rightarrow> string" where
  "getMonthName monthNum =
     (if 1 \<le> monthNum \<and> monthNum \<le> 12
      then [''January'', ''February'', ''March'', ''April'', ''May'', ''June'',
            ''July'', ''August'', ''September'', ''October'', ''November'', ''December'']
           ! nat (monthNum - 1)
      else ''Unknown'')"

datatype period = Weekly | Monthly | Yearly

text \<open>What tags a bucket: its week, its month and month name, or the year of the first
  record (\<open>None\<close> for \<^verbatim>\<open>"N/A"\<close>).\<close>

datatype bucket_key = Week int | Month int string | Year "int option"

record bucket = figures +
  key :: bucket_key




subsection \<open>The dashboard: scenario engine\<close>

record scenario =
  revenueMultiplier :: real
  volumeMultiplier :: real
  mixShiftIndustry :: "string option"
  mixShiftPct :: real

text \<open>\<^verbatim>\<open>mixShiftIndustry && d.industry === mixShiftIndustry\<close>: \<^verbatim>\<open>null\<close> and the empty
  string are falsy.\<close>

definition targeted :: "string option \<Rightarrow> string \<Rightarrow> bool" where
  "targeted target ind =
     (case target of None \<Rightarrow> False | Some m \<Rightarrow> m \<noteq> [] \<and> ind = m)"

definition applyScenario ::
  "'a basic_record_scheme list \<Rightarrow> scenario \<Rightarrow> 'a basic_record_scheme list" where
  "applyScenario data opts =
     map (\<lambda>d.
            let rev = revenue d * revenueMultiplier opts;
                vol = volume d * volumeMultiplier opts
            in if targeted (mixShiftIndustry opts) (industry d)
               then d\<lparr> revenue := rev * (1 + mixShiftPct opts / 100),
                       volume := vol * (1 + (mixShiftPct opts * 0.6) / 100) \<rparr>
               else d\<lparr> revenue := rev, volume := vol \<rparr>)
         data"

subsection \<open>The dashboard: year to date, month to date, forecast\<close>

text \<open>\<^verbatim>\<open>m.month\<close> of a bucket; weekly and yearly buckets have none.\<close>

fun month :: "bucket \<Rightarrow> int option" where
  "month b = (case key b of Month m n \<Rightarrow> Some m | _ \<Rightarrow> None)"

text \<open>\<^verbatim>\<open>monthly.filter((m) => m.month <= monthCutoff)\<close>.\<close>

definition upTo :: "int \<Rightarrow> bucket list \<Rightarrow> bucket list" where
  "upTo monthCutoff monthly =
     filter (\<lambda>m. case month m of Some k \<Rightarrow> k \<le> monthCutoff | None \<Rightarrow> False) monthly"

definition ytdRevenueTY :: "bucket list \<Rightarrow> int \<Rightarrow> real" where
  "ytdRevenueTY monthlyTY monthCutoff = reduceSum revenue (upTo monthCutoff monthlyTY)"

definition ytdVolumeTY :: "bucket list \<Rightarrow> int \<Rightarrow> real" where
  "ytdVolumeTY monthlyTY monthCutoff = reduceSum volume (upTo monthCutoff monthlyTY)"

text \<open>\<^verbatim>\<open>monthly.find((m) => m.month === monthCutoff)?.revenue ?? 0\<close>.\<close>

definition mtdRevenueTY :: "bucket list \<Rightarrow> int \<Rightarrow> real" where
  "mtdRevenueTY monthlyTY monthCutoff =
     (case List.find (\<lambda>m. month m = Some monthCutoff) monthlyTY of
        Some m \<Rightarrow> revenue m | None \<Rightarrow> 0)"

definition mtdVolumeTY :: "bucket list \<Rightarrow> int \<Rightarrow> real" where
  "mtdVolumeTY monthlyTY monthCutoff =
     (case List.find (\<lambda>m. month m = Some monthCutoff) monthlyTY of
        Some m \<Rightarrow> volume m | None \<Rightarrow> 0)"

definition avgPerMonthRevTY :: "bucket list \<Rightarrow> int \<Rightarrow> real" where
  "avgPerMonthRevTY monthlyTY monthCutoff =
     (if monthCutoff > 0 then ytdRevenueTY monthlyTY monthCutoff / real_of_int monthCutoff
      else 0)"

definition forecastRevenueTY :: "bucket list \<Rightarrow> int \<Rightarrow> real \<Rightarrow> real" where
  "forecastRevenueTY monthlyTY monthCutoff forecastAdjPct =
     ytdRevenueTY monthlyTY monthCutoff
       + real_of_int (12 - monthCutoff) * avgPerMonthRevTY monthlyTY monthCutoff
           * (1 + forecastAdjPct / 100)"

definition avgPerMonthVolTY :: "bucket list \<Rightarrow> int \<Rightarrow> real" where
  "avgPerMonthVolTY monthlyTY monthCutoff =
     (if monthCutoff > 0 then ytdVolumeTY monthlyTY monthCutoff / real_of_int monthCutoff
      else 0)"

definition forecastVolumeTY :: "bucket list \<Rightarrow> int \<Rightarrow> real \<Rightarrow> real" where
  "forecastVolumeTY monthlyTY monthCutoff forecastAdjPct =
     ytdVolumeTY monthlyTY monthCutoff
       + real_of_int (12 - monthCutoff) * avgPerMonthVolTY monthlyTY monthCutoff
           * (1 + forecastAdjPct / 100)"

subsection \<open>Sample data\<close>

text \<open>A host for the concrete workbooks below: its tables give what JavaScript gives on
  the cell texts and numbers these workbooks contain, read on a day of March 2025.\<close>

definition sampleHost :: host where
  "sampleHost =
     \<lparr> numToString = (\<lambda>x. if x = 10 then ''10'' else if x = 2 then ''2'' else ''1''),
       parseIntStr = (\<lambda>s. if s = ''2024'' then Some 2024 else if s = ''2026'' then Some 2026
                          else if s = ''2'' then Some 2 else None),
       parseFloatStr = (\<lambda>s. if s = ''1000'' then Some 1000 else if s = ''10'' then Some 10
                            else None),
       mathRandom = (\<lambda>n. 0), nowYear = 2025, nowMonth = 3, nowWeek = 10 \<rparr>"

definition sampleRows :: "row list" where
  "sampleRows =
     [[(''Account Name'', JStr ''Acme''), (''Industry'', JStr ''Retail''),
       (''Monthly Sales Forecast'', JStr ''1,000''), (''Committed Monthly Volume'', JNum 10),
       (''Forecasted TXN Start (Month)'', JStr ''March''),
       (''Forecasted TXN Start (Year)'', JStr ''2024''),
       (''Years of Engagement'', JStr ''2'')],
      [(''Account Name'', JStr ''Acme''), (''Industry'', JStr ''Retail''),
       (''Monthly Sales Forecast'', JStr ''1000''), (''Committed Monthly Volume'', JNum 10),
       (''Forecasted TXN Start (Month)'', JStr ''August''),
       (''Forecasted TXN Start (Year)'', JStr ''2026'')]]"

definition sampleWeekly :: "weekly_record list" where
  "sampleWeekly = expandWeeks (normalizeRows sampleHost 0 sampleRows 0)"

definition sampleResult :: parse_result where
  "sampleResult =
     \<lparr> weekly = sampleWeekly,
       accounts = accountsOf richAccount sampleWeekly,
       meta = metaOf sampleHost sampleWeekly,
       info = infoOf sampleHost sampleWeekly (map fst (hd sampleRows)) \<rparr>"

definition sampleRecord :: basic_record where
  "sampleRecord =
     \<lparr> revenue = 100, volume = 50, week = 3, year = 2025, account = ''Acme'',
       industry = ''Retail'', area = ''NCR'', agent = ''Cruz'', status = ''Won'' \<rparr>"

definition sampleScenario :: scenario where
  "sampleScenario =
     \<lparr> revenueMultiplier = 1, volumeMultiplier = 1,
       mixShiftIndustry = Some ''Retail'', mixShiftPct = 20 \<rparr>"

definition sampleMonthly :: "bucket list" where
  "sampleMonthly =
     map (\<lambda>m. \<lparr> revenue = 200, volume = 200, key = Month m (getMonthName m) \<rparr>)
       [1, 2, 3, 4, 5, 6, 7]"

definition sampleRows0 :: "row list" where
  "sampleRows0 =
     [[(''Account Name'', JStr ''Acme''), (''Industry'', JStr ''Retail''),
       (''Sales Stage'', JStr ''Won''), (''Monthly Sales Report Prep'', JStr ''1,000''),
       (''Committed Monthly Vol'', JNum 10)],
      [(''Account Name'', JStr ''Acme''), (''Industry'', JStr ''Retail''),
       (''Sales Stage'', JStr ''Won''), (''Monthly Sales Report Prep'', JStr ''1000''),
       (''Committed Monthly Vol'', JNum 10)]]"

definition sampleWeekly0 :: "basic_record list" where
  "sampleWeekly0 = normalizeRows0 sampleHost 0 sampleRows0 0"

definition sampleResult0 :: basic_result where
  "sampleResult0 =
     \<lparr> b_weekly = sampleWeekly0,
       b_accounts = accountsOf basicAccount sampleWeekly0,
       b_meta = metaOf0 sampleHost sampleWeekly0,
       b_info = infoOf sampleHost sampleWeekly0 (map fst (hd sampleRows0)) \<rparr>"

definition noFigureRows :: "row list" where
  "noFigureRows = [[(''Account Name'', JStr ''Acme''), (''Industry'', JStr ''Retail'')]]"

definition halfHost :: host where
  "halfHost = sampleHost\<lparr> mathRandom := (\<lambda>n. 1 / 2) \<rparr>"

text \<open>The matching of headers as the specification words it, to compare with
  \<^verbatim>\<open>foundColumns\<close>: a canonical header matches when some header of the file contains it or
  is contained in it, letter case ignored.\<close>

definition specFoundColumns :: "string list \<Rightarrow> string list \<Rightarrow> string list" where
  "specFoundColumns mapped fileColumns =
     filter (\<lambda>col. list_ex (\<lambda>fileCol. includesStr (toLowerCase fileCol) (toLowerCase col)
                                    \<or> includesStr (toLowerCase col) (toLowerCase fileCol))
                      fileColumns)
            mapped"

definition lowerCaseRows :: "row list" where
  "lowerCaseRows = [[(''industry'', JStr ''Retail'')]]"






section \<open>Properties\<close>

subsection \<open>Sums in exact arithmetic\<close>

lemma foldl_add_sum: "foldl (\<lambda>sum d. sum + f d) a xs = a + sum_list (map f xs)"
  by (induction xs arbitrary: a) (simp_all add: add.assoc)

lemma reduceSum_sum_list: "reduceSum f xs = sum_list (map f xs)"
  by (simp add: reduceSum_def foldl_add_sum)

subsection \<open>Rounded sums\<close>


















subsection \<open>Buckets\<close>
















subsection \<open>Scenario engine and forecast\<close>

text \<open>
  C6. With \<^verbatim>\<open>mixShiftIndustry\<close> set (a non-empty string), \<^verbatim>\<open>applyScenario\<close> scales the
  revenue of a record of that industry by the revenue multiplier and by
  \<open>1 + mixShiftPct / 100\<close>, its volume by the volume multiplier and by
  \<open>1 + 0.6 * mixShiftPct / 100\<close>, and any other record by the multipliers alone. With
  \<open>mixShiftPct = 20\<close> and both multipliers \<open>1\<close> a targeted record's revenue is scaled by
  \<open>1.20\<close> and its volume by \<open>1.12\<close>.
\<close>

theorem applyScenario_mix_shift:
  assumes "mixShiftIndustry opts = Some ind" and "ind \<noteq> []" and "i < length data"
  shows "length (applyScenario data opts) = length data
    \<and> revenue (applyScenario data opts ! i)
        = revenue (data ! i) * revenueMultiplier opts
            * (if industry (data ! i) = ind then 1 + mixShiftPct opts / 100 else 1)
    \<and> volume (applyScenario data opts ! i)
        = volume (data ! i) * volumeMultiplier opts
            * (if industry (data ! i) = ind then 1 + 0.6 * mixShiftPct opts / 100 else 1)
    \<and> (mixShiftPct opts = 20 \<and> revenueMultiplier opts = 1 \<and> volumeMultiplier opts = 1
         \<and> industry (data ! i) = ind
        \<longrightarrow> revenue (applyScenario data opts ! i) = 1.20 * revenue (data ! i)
          \<and> volume (applyScenario data opts ! i) = 1.12 * volume (data ! i))"
  using assms by (simp add: applyScenario_def targeted_def Let_def)

theorem applyScenario_mix_shift_witness:
  "mixShiftIndustry sampleScenario = Some ''Retail'' \<and> ''Retail'' \<noteq> []
   \<and> 0 < length [sampleRecord]
   \<and> industry ([sampleRecord] ! 0) = ''Retail''
   \<and> revenue (applyScenario [sampleRecord] sampleScenario ! 0) = 120
   \<and> volume (applyScenario [sampleRecord] sampleScenario ! 0) = 56"
  using applyScenario_mix_shift [of sampleScenario "''Retail''" 0 "[sampleRecord]"]
  by (simp add: sampleScenario_def sampleRecord_def)

lemma find_None_ex: "\<not> list_ex P xs \<Longrightarrow> List.find P xs = None"
  by (induction xs) auto

lemma find_single: "filter P xs = [b] \<Longrightarrow> List.find P xs = Some b"
  by (induction xs) (auto split: if_splits)

text \<open>
  C7. For every list of monthly buckets and every cutoff: the year-to-date figure is the
  sum over the buckets of month at most the cutoff; the month-to-date figure is \<open>0\<close> when no
  bucket has the cutoff month and the figure of the bucket that has it; the monthly
  average is the year-to-date figure over the cutoff when the cutoff is positive and \<open>0\<close>
  otherwise; the forecast is the year-to-date figure plus the remaining months times the
  average times \<open>1 + adjPct / 100\<close>. At cutoff \<open>12\<close> the forecast is the year-to-date
  figure; a year-to-date figure of \<open>1200\<close> at cutoff \<open>6\<close> with adjustment \<open>10\<close> gives an
  average of \<open>200\<close> and a forecast of \<open>2520\<close>. Revenue and volume follow the same formulas.
\<close>

theorem forecast_figures:
  "ytdRevenueTY monthly c
     = sum_list (map revenue (filter (\<lambda>m. \<exists>k. month m = Some k \<and> k \<le> c) monthly))
   \<and> ytdVolumeTY monthly c
     = sum_list (map volume (filter (\<lambda>m. \<exists>k. month m = Some k \<and> k \<le> c) monthly))
   \<and> (\<not> list_ex (\<lambda>m. month m = Some c) monthly
        \<longrightarrow> mtdRevenueTY monthly c = 0 \<and> mtdVolumeTY monthly c = 0)
   \<and> (filter (\<lambda>m. month m = Some c) monthly = [b]
        \<longrightarrow> mtdRevenueTY monthly c = revenue b \<and> mtdVolumeTY monthly c = volume b)
   \<and> avgPerMonthRevTY monthly c
        = (if c > 0 then ytdRevenueTY monthly c / real_of_int c else 0)
   \<and> avgPerMonthVolTY monthly c
        = (if c > 0 then ytdVolumeTY monthly c / real_of_int c else 0)
   \<and> forecastRevenueTY monthly c adjPct
        = ytdRevenueTY monthly c
          + real_of_int (12 - c) * avgPerMonthRevTY monthly c * (1 + adjPct / 100)
   \<and> forecastVolumeTY monthly c adjPct
        = ytdVolumeTY monthly c
          + real_of_int (12 - c) * avgPerMonthVolTY monthly c * (1 + adjPct / 100)
   \<and> (c = 12 \<longrightarrow> forecastRevenueTY monthly c adjPct = ytdRevenueTY monthly c
                 \<and> forecastVolumeTY monthly c adjPct = ytdVolumeTY monthly c)
   \<and> (ytdRevenueTY monthly c = 1200 \<and> c = 6 \<and> adjPct = 10
        \<longrightarrow> avgPerMonthRevTY monthly c = 200 \<and> forecastRevenueTY monthly c adjPct = 2520)
   \<and> (ytdVolumeTY monthly c = 1200 \<and> c = 6 \<and> adjPct = 10
        \<longrightarrow> avgPerMonthVolTY monthly c = 200 \<and> forecastVolumeTY monthly c adjPct = 2520)"
proof -
  have f: "upTo c monthly = filter (\<lambda>m. \<exists>k. month m = Some k \<and> k \<le> c) monthly"
    unfolding upTo_def by (rule filter_cong) (auto split: option.splits)
  have y: "ytdRevenueTY monthly c
     = sum_list (map revenue (filter (\<lambda>m. \<exists>k. month m = Some k \<and> k \<le> c) monthly))"
    "ytdVolumeTY monthly c
     = sum_list (map volume (filter (\<lambda>m. \<exists>k. month m = Some k \<and> k \<le> c) monthly))"
    by (simp_all only: ytdRevenueTY_def ytdVolumeTY_def reduceSum_sum_list f)
  have m0: "\<not> list_ex (\<lambda>m. month m = Some c) monthly
        \<longrightarrow> mtdRevenueTY monthly c = 0 \<and> mtdVolumeTY monthly c = 0"
    by (simp add: mtdRevenueTY_def mtdVolumeTY_def find_None_ex)
  have m1: "filter (\<lambda>m. month m = Some c) monthly = [b]
        \<longrightarrow> mtdRevenueTY monthly c = revenue b \<and> mtdVolumeTY monthly c = volume b"
    by (simp add: mtdRevenueTY_def mtdVolumeTY_def find_single)
  have a: "avgPerMonthRevTY monthly c
        = (if c > 0 then ytdRevenueTY monthly c / real_of_int c else 0)"
     "avgPerMonthVolTY monthly c
        = (if c > 0 then ytdVolumeTY monthly c / real_of_int c else 0)"
    by (simp_all add: avgPerMonthRevTY_def avgPerMonthVolTY_def)
  have fc: "forecastRevenueTY monthly c adjPct
        = ytdRevenueTY monthly c
          + real_of_int (12 - c) * avgPerMonthRevTY monthly c * (1 + adjPct / 100)"
      "forecastVolumeTY monthly c adjPct
        = ytdVolumeTY monthly c
          + real_of_int (12 - c) * avgPerMonthVolTY monthly c * (1 + adjPct / 100)"
    by (simp_all add: forecastRevenueTY_def forecastVolumeTY_def)
  have c12: "c = 12 \<longrightarrow> forecastRevenueTY monthly c adjPct = ytdRevenueTY monthly c
                 \<and> forecastVolumeTY monthly c adjPct = ytdVolumeTY monthly c"
    by (simp add: forecastRevenueTY_def forecastVolumeTY_def)
  have ex1: "ytdRevenueTY monthly c = 1200 \<and> c = 6 \<and> adjPct = 10
        \<longrightarrow> avgPerMonthRevTY monthly c = 200 \<and> forecastRevenueTY monthly c adjPct = 2520"
    by (auto simp add: forecastRevenueTY_def avgPerMonthRevTY_def)
  have ex2: "ytdVolumeTY monthly c = 1200 \<and> c = 6 \<and> adjPct = 10
        \<longrightarrow> avgPerMonthVolTY monthly c = 200 \<and> forecastVolumeTY monthly c adjPct = 2520"
    by (auto simp add: forecastVolumeTY_def avgPerMonthVolTY_def)
  from y m0 m1 a fc c12 ex1 ex2 show ?thesis by blast
qed

theorem forecast_figures_witness:
  "ytdRevenueTY sampleMonthly 6 = 1200
   \<and> avgPerMonthRevTY sampleMonthly 6 = 200
   \<and> forecastRevenueTY sampleMonthly 6 10 = 2520
   \<and> ytdVolumeTY sampleMonthly 6 = 1200
   \<and> avgPerMonthVolTY sampleMonthly 6 = 200
   \<and> forecastVolumeTY sampleMonthly 6 10 = 2520
   \<and> mtdRevenueTY sampleMonthly 6 = 200
   \<and> mtdVolumeTY sampleMonthly 6 = 200
   \<and> mtdRevenueTY sampleMonthly 9 = 0
   \<and> forecastRevenueTY sampleMonthly 12 10 = ytdRevenueTY sampleMonthly 12
   \<and> avgPerMonthRevTY sampleMonthly 0 = 0"
proof -
  let ?b = "\<lparr> revenue = 200, volume = 200, key = Month 6 (getMonthName 6) \<rparr>"
  have y: "ytdRevenueTY sampleMonthly 6 = 1200" "ytdVolumeTY sampleMonthly 6 = 1200"
    by (simp_all add: sampleMonthly_def ytdRevenueTY_def ytdVolumeTY_def upTo_def reduceSum_def)
  have one: "filter (\<lambda>m. month m = Some 6) sampleMonthly = [?b]"
    by (simp add: sampleMonthly_def)
  have none: "\<not> list_ex (\<lambda>m. month m = Some 9) sampleMonthly"
    by (simp add: sampleMonthly_def)
  show ?thesis
    using y one none
      forecast_figures [of sampleMonthly 6 ?b 10]
      forecast_figures [of sampleMonthly 9 ?b 10]
      forecast_figures [of sampleMonthly 12 ?b 10]
      forecast_figures [of sampleMonthly 0 ?b 10]
    by simp
qed

subsection \<open>The temporal expander\<close>

lemma length_normalizeRows: "length (normalizeRows h index rs n) = length rs"
  by (induction rs arbitrary: index n) (simp_all split: prod.splits)

lemma length_concat_rows:
  "length (concat (map (\<lambda>w. map (f w) accs) ws)) = length ws * length accs"
  by (induction ws) simp_all

lemma length_expandWeeks: "length (expandWeeks accs) = 52 * length accs"
  by (simp add: expandWeeks_def length_concat_rows)

lemma nth_concat_rows:
  "i < length accs \<Longrightarrow> k < length ws \<Longrightarrow>
   concat (map (\<lambda>w. map (f w) accs) ws) ! (k * length accs + i) = f (ws ! k) (accs ! i)"
proof (induction ws arbitrary: k)
  case Nil
  then show ?case by simp
next
  case (Cons w ws)
  show ?case
  proof (cases k)
    case 0
    with Cons.prems show ?thesis by (simp add: nth_append)
  next
    case (Suc j)
    with Cons.prems have "j < length ws" by simp
    from Cons.IH [OF Cons.prems(1) this] Suc show ?thesis
      by (simp add: nth_append add.assoc)
  qed
qed

lemma nth_expandWeeks:
  assumes "i < length accs" and "1 \<le> w" and "w \<le> 52"
  shows "expandWeeks accs ! (nat (w - 1) * length accs + i) = weekRecord w (accs ! i)"
proof -
  have k: "nat (w - 1) < length [1..52::int]" using assms by simp
  have "[1..52::int] ! nat (w - 1) = w" using assms by simp
  with nth_concat_rows [OF assms(1) k, of weekRecord] show ?thesis
    by (simp add: expandWeeks_def)
qed

lemma set_expandWeeks:
  "set (expandWeeks accs) = (\<Union>w\<in>{1..52}. weekRecord w ` set accs)"
  by (simp add: expandWeeks_def)

lemma parseExcelFile_success:
  assumes "parseExcelFile h jsonData = Inr res"
  shows "jsonData \<noteq> []
    \<and> res = \<lparr> weekly = expandWeeks (normalizeRows h 0 jsonData 0),
               accounts = accountsOf richAccount (expandWeeks (normalizeRows h 0 jsonData 0)),
               meta = metaOf h (expandWeeks (normalizeRows h 0 jsonData 0)),
               info = infoOf h (expandWeeks (normalizeRows h 0 jsonData 0))
                        (map fst (hd jsonData)) \<rparr>"
proof (cases jsonData)
  case Nil
  with assms show ?thesis by (simp add: parseExcelFile_def)
next
  case (Cons first rest)
  with assms show ?thesis
    by (simp add: parseExcelFile_def Let_def split: if_splits)
qed

lemma parseExcelFile_accepts:
  assumes "jsonData \<noteq> []" and "\<not> length (foundColumns (map fst (hd jsonData))) < 2"
  shows "parseExcelFile h jsonData
     = Inr \<lparr> weekly = expandWeeks (normalizeRows h 0 jsonData 0),
             accounts = accountsOf richAccount (expandWeeks (normalizeRows h 0 jsonData 0)),
             meta = metaOf h (expandWeeks (normalizeRows h 0 jsonData 0)),
             info = infoOf h (expandWeeks (normalizeRows h 0 jsonData 0))
                      (map fst (hd jsonData)) \<rparr>"
proof (cases jsonData)
  case Nil
  with assms show ?thesis by simp
next
  case (Cons first rest)
  have "length (expandWeeks (normalizeRows h 0 jsonData 0)) = 52 * length jsonData"
    by (simp only: length_expandWeeks length_normalizeRows)
  with assms(1) have "expandWeeks (normalizeRows h 0 jsonData 0) \<noteq> []"
    by auto
  with assms Cons show ?thesis
    by (simp add: parseExcelFile_def Let_def)
qed

lemma sample_found: "\<not> length (foundColumns (map fst (hd sampleRows))) < 2"
  by code_simp

lemma sample_parse: "parseExcelFile sampleHost sampleRows = Inr sampleResult"
proof -
  have "sampleRows \<noteq> []" by (simp add: sampleRows_def)
  from parseExcelFile_accepts [OF this sample_found] show ?thesis
    by (simp add: sampleResult_def sampleWeekly_def)
qed

lemma clean_samples:
  "cleanRevenue ''1,000'' = ''1000''"
  "cleanRevenue ''1000'' = ''1000''"
  "cleanVolume ''10'' = ''10''"
  "cleanRevenue0 ''1,000'' = ''1000''"
  "cleanRevenue0 ''1000'' = ''1000''"
  by code_simp+

text \<open>A no-break space is stripped like a space: \<^verbatim>\<open>1\<close>, U+00A0, \<^verbatim>\<open>000\<close> cleans to
  \<^verbatim>\<open>1000\<close>.\<close>

lemma clean_no_break_space:
  "cleanVolume (''1'' @ [CHR 0xC2, CHR 0xA0] @ ''000'') = ''1000''"
  "cleanRevenue (peso @ ''1'' @ [CHR 0xC2, CHR 0xA0] @ ''000'') = ''1000''"
  by code_simp+

lemma sample_accounts:
  "normalizeRows sampleHost 0 sampleRows 0
   = [\<lparr> acc_account = ''Acme'', acc_industry = ''Retail'', acc_salesCategory = ''Unknown'',
        acc_city = ''Unknown'', acc_territoryCode = ''Unknown'', acc_agent = ''Unknown'',
        acc_status = ''Prospect'', acc_teamDesignation = ''Unknown'',
        acc_monthlyRevenue = 1000, acc_monthlyVolume = 10,
        acc_startMonth = 3, acc_startYear = 2024, acc_yearsOfEngagement = 2,
        acc_endYear = 2025 \<rparr>,
      \<lparr> acc_account = ''Acme'', acc_industry = ''Retail'', acc_salesCategory = ''Unknown'',
        acc_city = ''Unknown'', acc_territoryCode = ''Unknown'', acc_agent = ''Unknown'',
        acc_status = ''Prospect'', acc_teamDesignation = ''Unknown'',
        acc_monthlyRevenue = 1000, acc_monthlyVolume = 10,
        acc_startMonth = 8, acc_startYear = 2026, acc_yearsOfEngagement = 1,
        acc_endYear = 2026 \<rparr>]"
  by (simp add: sampleRows_def sampleHost_def normalizeRow_def parseIntOr_def jsParseInt_def
        startMonthOf_def parseMonthFromText_def monthMap_def toLowerCase_def toLowerChar_def
        parsedRevenue_def parsedVolume_def parsedFigure_def clean_samples
        textField_def)

text \<open>
  C1. For a parsed workbook, row \<open>i\<close> and week \<open>w\<close> from 1 to 52, the record emitted for
  that row and week carries the week, the account name and the start year as its year, and
  its revenue is \<open>(monthlyRevenue / 4.345) * (1 + 0.12 * sin (2 * pi * w / 52))\<close> when the
  week contributes and \<open>0\<close> otherwise, likewise its volume; the week contributes when
  (the year is after the start year, or it is the start year and \<open>\<lceil>w / 4.345\<rceil>\<close> is at least
  the start month) and the year is at most the end year.
\<close>

theorem temporal_expander_formula:
  assumes "parseExcelFile h jsonData = Inr res"
    and "i < length jsonData" and "1 \<le> w" and "w \<le> 52"
  shows
    "let acc = normalizeRows h 0 jsonData 0 ! i;
         r = weekly res ! (nat (w - 1) * length jsonData + i);
         contributes =
           ((year r > startYear r
             \<or> (year r = startYear r \<and> \<lceil>real_of_int w / 4.345\<rceil> \<ge> startMonth r))
            \<and> year r \<le> endYear r)
     in week r = w \<and> year r = acc_startYear acc \<and> account r = acc_account acc
        \<and> startMonth r = acc_startMonth acc \<and> startYear r = acc_startYear acc
        \<and> endYear r = acc_endYear acc
        \<and> revenue r
            = (if contributes
               then (acc_monthlyRevenue acc / 4.345)
                      * (1 + 0.12 * sin (2 * pi * real_of_int w / 52))
               else 0)
        \<and> volume r
            = (if contributes
               then (acc_monthlyVolume acc / 4.345)
                      * (1 + 0.12 * sin (2 * pi * real_of_int w / 52))
               else 0)"
proof -
  let ?accs = "normalizeRows h 0 jsonData 0"
  have w: "weekly res = expandWeeks ?accs"
    using parseExcelFile_success [OF assms(1)] by simp
  have n: "length ?accs = length jsonData" by (rule length_normalizeRows)
  have "expandWeeks ?accs ! (nat (w - 1) * length ?accs + i) = weekRecord w (?accs ! i)"
    using assms(2-4) n by (intro nth_expandWeeks) simp_all
  then have "weekly res ! (nat (w - 1) * length jsonData + i) = weekRecord w (?accs ! i)"
    by (simp only: w n)
  then show ?thesis
    by (simp add: weekRecord_def Let_def)
qed

theorem temporal_expander_formula_witness:
  "parseExcelFile sampleHost sampleRows = Inr sampleResult
   \<and> (0::nat) < length sampleRows
   \<and> week (weekly sampleResult ! 50) = 26
   \<and> revenue (weekly sampleResult ! 50) = 1000 / 4.345
   \<and> volume (weekly sampleResult ! 50) = 10 / 4.345
   \<and> week (weekly sampleResult ! 0) = 1
   \<and> revenue (weekly sampleResult ! 0) = 0"
proof -
  have l: "(0::nat) < length sampleRows" by (simp add: sampleRows_def)
  have n: "length sampleRows = 2" by (simp add: sampleRows_def)
  show ?thesis
    using temporal_expander_formula [OF sample_parse l, of 26]
          temporal_expander_formula [OF sample_parse l, of 1]
    by (simp add: sample_parse n Let_def sample_accounts)
qed

subsection \<open>Accounts and their base figures\<close>

lemma length_normalizeRows0: "length (normalizeRows0 h index rs n) = length rs"
  by (induction rs arbitrary: index n) (simp_all split: prod.splits)


lemma parseExcelFile0_accepts:
  assumes "jsonData \<noteq> []" and "\<not> length (foundColumns0 (map fst (hd jsonData))) < 3"
  shows "parseExcelFile0 h jsonData
     = Inr \<lparr> b_weekly = normalizeRows0 h 0 jsonData 0,
             b_accounts = accountsOf basicAccount (normalizeRows0 h 0 jsonData 0),
             b_meta = metaOf0 h (normalizeRows0 h 0 jsonData 0),
             b_info = infoOf h (normalizeRows0 h 0 jsonData 0) (map fst (hd jsonData)) \<rparr>"
proof (cases jsonData)
  case Nil
  with assms show ?thesis by simp
next
  case (Cons first rest)
  have "length (normalizeRows0 h 0 jsonData 0) = length jsonData"
    by (simp only: length_normalizeRows0)
  with assms(1) have "normalizeRows0 h 0 jsonData 0 \<noteq> []"
    by auto
  with assms Cons show ?thesis
    by (simp add: parseExcelFile0_def Let_def)
qed

lemma sample_found0: "\<not> length (foundColumns0 (map fst (hd sampleRows0))) < 3"
  by code_simp

lemma sample_parse0: "parseExcelFile0 sampleHost sampleRows0 = Inr sampleResult0"
proof -
  have "sampleRows0 \<noteq> []" by (simp add: sampleRows0_def)
  from parseExcelFile0_accepts [OF this sample_found0] show ?thesis
    by (simp add: sampleResult0_def sampleWeekly0_def)
qed
















subsection \<open>Record counts and years\<close>

lemma weekRecord_fields:
  "week (weekRecord w a) = w"
  "year (weekRecord w a) = acc_startYear a"
  "startYear (weekRecord w a) = acc_startYear a"
  "account (weekRecord w a) = acc_account a"
  by (simp_all add: weekRecord_def Let_def)

lemma filter_rows_length:
  assumes "\<And>w a. P (f w a) = Q a"
  shows "length (filter P (concat (map (\<lambda>w. map (f w) accs) ws)))
         = length ws * length (filter Q accs)"
proof (induction ws)
  case Nil
  then show ?case by simp
next
  case (Cons w ws)
  have "filter P (map (f w) accs) = map (f w) (filter Q accs)"
    by (simp add: filter_map comp_def assms)
  then have "length (filter P (map (f w) accs)) = length (filter Q accs)" by simp
  with Cons show ?case by simp
qed

lemma filter_expandWeeks_length:
  "length (filter (\<lambda>d. account d = n) (expandWeeks accs))
   = 52 * length (filter (\<lambda>a. acc_account a = n) accs)"
  using filter_rows_length [of "\<lambda>d. account d = n" weekRecord "\<lambda>a. acc_account a = n" accs "[1..52]"]
  by (simp add: expandWeeks_def weekRecord_fields)

lemma startYear_expandWeeks:
  "startYear ` set (expandWeeks accs) = acc_startYear ` set accs"
proof -
  have "startYear ` set (expandWeeks accs)
      = (\<Union>w\<in>{1..52::int}. (\<lambda>a. startYear (weekRecord w a)) ` set accs)"
    by (simp add: set_expandWeeks image_UN image_image)
  also have "\<dots> = (\<Union>w\<in>{1..52::int}. acc_startYear ` set accs)"
    by (simp add: weekRecord_fields)
  also have "\<dots> = acc_startYear ` set accs" by simp
  finally show ?thesis .
qed

lemma set_uniq: "set (uniq xs) = set xs"
  by (simp add: uniq_def)

lemma mathMax_Max: "xs \<noteq> [] \<Longrightarrow> mathMax xs = Max (set xs)"
proof (cases xs)
  case Nil
  then show "xs \<noteq> [] \<Longrightarrow> ?thesis" by simp
next
  case (Cons a list)
  have "mathMax (a # list) = Max (set (a # list))"
    by (simp only: mathMax.simps Max.set_eq_fold)
  with Cons show ?thesis by simp
qed

lemma mathMax_uniqueSortedYears:
  assumes "ys \<noteq> []"
  shows "mathMax (uniqueSortedYears h ys) = Max (set ys)"
proof -
  have s: "set (uniqueSortedYears h ys) = set ys"
    by (simp add: uniqueSortedYears_def set_uniq)
  with assms have "uniqueSortedYears h ys \<noteq> []" by auto
  from mathMax_Max [OF this] s show ?thesis by simp
qed

text \<open>
  C9. For a workbook that the richer parser accepts, every row, also one that repeats an
  earlier account name, yields one record for each of the 52 weeks: the weekly collection
  has 52 records per row, a name borne by \<open>m\<close> rows is borne by \<open>52 * m\<close> records, and
  \<^verbatim>\<open>info.totalRows\<close> is that number of records, not the number of rows.
\<close>

theorem weekly_record_count:
  assumes "parseExcelFile h jsonData = Inr res"
  shows "length (weekly res) = 52 * length jsonData
    \<and> totalRows (info res) = length (weekly res)
    \<and> totalRows (info res) \<noteq> length jsonData
    \<and> (\<forall>i<length jsonData. \<forall>w\<in>{1..52}.
          weekly res ! (nat (w - 1) * length jsonData + i)
            = weekRecord w (normalizeRows h 0 jsonData 0 ! i))
    \<and> (\<forall>n. length (filter (\<lambda>d. account d = n) (weekly res))
            = 52 * length (filter (\<lambda>a. acc_account a = n) (normalizeRows h 0 jsonData 0)))"
proof -
  let ?accs = "normalizeRows h 0 jsonData 0"
  from parseExcelFile_success [OF assms]
  have ne: "jsonData \<noteq> []" and w: "weekly res = expandWeeks ?accs"
    and t: "totalRows (info res) = length (expandWeeks ?accs)"
    by (simp_all add: infoOf_def)
  have n: "length ?accs = length jsonData" by (rule length_normalizeRows)
  have l: "length (weekly res) = 52 * length jsonData"
    by (simp only: w length_expandWeeks n)
  have p: "\<forall>i<length jsonData. \<forall>w\<in>{1..52}.
          weekly res ! (nat (w - 1) * length jsonData + i) = weekRecord w (?accs ! i)"
  proof (intro allI impI ballI)
    fix i and k :: int
    assume "i < length jsonData" and "k \<in> {1..52}"
    then have "expandWeeks ?accs ! (nat (k - 1) * length ?accs + i) = weekRecord k (?accs ! i)"
      using n by (intro nth_expandWeeks) simp_all
    then show "weekly res ! (nat (k - 1) * length jsonData + i) = weekRecord k (?accs ! i)"
      by (simp only: w n)
  qed
  have f: "\<forall>n. length (filter (\<lambda>d. account d = n) (weekly res))
            = 52 * length (filter (\<lambda>a. acc_account a = n) ?accs)"
    by (simp only: w filter_expandWeeks_length) simp
  from ne l have "52 * length jsonData \<noteq> length jsonData" by simp
  with l t w p f show ?thesis by simp
qed

theorem weekly_record_count_witness:
  "parseExcelFile sampleHost sampleRows = Inr sampleResult
   \<and> length sampleRows = 2
   \<and> map acc_account (normalizeRows sampleHost 0 sampleRows 0) = [''Acme'', ''Acme'']
   \<and> length (weekly sampleResult) = 104
   \<and> totalRows (info sampleResult) = 104
   \<and> week (weekly sampleResult ! 3) = 2
   \<and> length (filter (\<lambda>d. account d = ''Acme'') (weekly sampleResult)) = 104"
proof -
  have n: "length sampleRows = 2" by (simp add: sampleRows_def)
  have a: "(1::nat) < 2 \<and> (2::int) \<in> {1..52}" by simp
  from weekly_record_count [OF sample_parse] n a
  have "weekly sampleResult ! (nat (2 - 1) * 2 + 1)
          = weekRecord 2 (normalizeRows sampleHost 0 sampleRows 0 ! 1)"
    by metis
  then have "week (weekly sampleResult ! 3) = 2"
    by (simp add: weekRecord_fields)
  then show ?thesis
    using weekly_record_count [OF sample_parse] n
    by (simp add: sample_parse sample_accounts)
qed

text \<open>
  C10. For a workbook that the richer parser accepts, every weekly record has its year
  equal to its start year, the start year of the row it comes from, whatever the years of
  engagement; \<^verbatim>\<open>meta.year\<close> is the largest start year over the records.
\<close>

theorem year_is_start_year:
  assumes "parseExcelFile h jsonData = Inr res"
  shows "(\<forall>d\<in>set (weekly res). year d = startYear d)
    \<and> (\<forall>i<length jsonData. \<forall>w\<in>{1..52}.
          year (weekly res ! (nat (w - 1) * length jsonData + i))
            = acc_startYear (normalizeRows h 0 jsonData 0 ! i))
    \<and> metaYear (meta res) = Max (startYear ` set (weekly res))"
proof -
  let ?accs = "normalizeRows h 0 jsonData 0"
  from parseExcelFile_success [OF assms]
  have ne: "jsonData \<noteq> []" and w: "weekly res = expandWeeks ?accs"
    and m: "metaYear (meta res) = mathMax (uniqueSortedYears h (map year (expandWeeks ?accs)))"
    by (simp_all add: metaOf_def)
  have n: "length ?accs = length jsonData" by (rule length_normalizeRows)
  have y: "\<forall>d\<in>set (weekly res). year d = startYear d"
    unfolding w by (auto simp add: set_expandWeeks weekRecord_fields)
  have p: "\<forall>i<length jsonData. \<forall>w\<in>{1..52}.
          year (weekly res ! (nat (w - 1) * length jsonData + i)) = acc_startYear (?accs ! i)"
  proof (intro allI impI ballI)
    fix i and k :: int
    assume "i < length jsonData" and "k \<in> {1..52}"
    then have "expandWeeks ?accs ! (nat (k - 1) * length ?accs + i) = weekRecord k (?accs ! i)"
      using n by (intro nth_expandWeeks) simp_all
    then show "year (weekly res ! (nat (k - 1) * length jsonData + i)) = acc_startYear (?accs ! i)"
      by (simp only: w n weekRecord_fields)
  qed
  have "length (expandWeeks ?accs) = 52 * length jsonData"
    by (simp only: length_expandWeeks n)
  with ne have "map year (expandWeeks ?accs) \<noteq> []" by auto
  from mathMax_uniqueSortedYears [OF this, of h]
  have "metaYear (meta res) = Max (year ` set (weekly res))"
    by (simp add: m w)
  also have "year ` set (weekly res) = startYear ` set (weekly res)"
    using y by (intro image_cong) simp_all
  finally show ?thesis using y p by simp
qed

theorem year_is_start_year_witness:
  "parseExcelFile sampleHost sampleRows = Inr sampleResult
   \<and> acc_yearsOfEngagement (normalizeRows sampleHost 0 sampleRows 0 ! 0) = 2
   \<and> year (weekly sampleResult ! 0) = 2024
   \<and> year (weekly sampleResult ! 102) = 2024
   \<and> year (weekly sampleResult ! 1) = 2026
   \<and> metaYear (meta sampleResult) = 2026"
proof -
  have n: "length sampleRows = 2" by (simp add: sampleRows_def)
  have w: "weekly sampleResult = expandWeeks (normalizeRows sampleHost 0 sampleRows 0)"
    by (simp add: sampleResult_def sampleWeekly_def)
  have s: "startYear ` set (weekly sampleResult) = {2024, 2026}"
    by (simp only: w startYear_expandWeeks) (simp add: sample_accounts)
  have a: "(0::nat) < 2 \<and> (1::nat) < 2 \<and> (1::int) \<in> {1..52} \<and> (52::int) \<in> {1..52}" by simp
  from year_is_start_year [OF sample_parse] n a
  have "year (weekly sampleResult ! (nat (1 - 1) * 2 + 0))
          = acc_startYear (normalizeRows sampleHost 0 sampleRows 0 ! 0)"
    and "year (weekly sampleResult ! (nat (52 - 1) * 2 + 0))
          = acc_startYear (normalizeRows sampleHost 0 sampleRows 0 ! 0)"
    and "year (weekly sampleResult ! (nat (1 - 1) * 2 + 1))
          = acc_startYear (normalizeRows sampleHost 0 sampleRows 0 ! 1)"
    and "metaYear (meta sampleResult) = Max (startYear ` set (weekly sampleResult))"
    by metis+
  then show ?thesis
    by (simp add: sample_parse sample_accounts s)
qed

subsection \<open>Dependence on Math.random\<close>

lemma jsString_random: "jsString (h\<lparr> mathRandom := f \<rparr>) v = jsString h v"
  by (cases v) simp_all

lemma parsed_random:
  "parsedRevenue (h\<lparr> mathRandom := f \<rparr>) r = parsedRevenue h r"
  "parsedVolume (h\<lparr> mathRandom := f \<rparr>) r = parsedVolume h r"
  "parseIntOr (h\<lparr> mathRandom := f \<rparr>) c d = parseIntOr h c d"
  "startMonthOf (h\<lparr> mathRandom := f \<rparr>) r = startMonthOf h r"
  "textField (h\<lparr> mathRandom := f \<rparr>) r k t = textField h r k t"
  by (simp_all add: parsedRevenue_def parsedVolume_def parsedFigure_def parseIntOr_def
        jsParseInt_def startMonthOf_def parseMonthFromText_def textField_def jsString_random
      split: option.splits jsval.splits)

lemma normalizeRow_random:
  assumes "parsedRevenue h r \<noteq> 0" and "parsedVolume h r \<noteq> 0"
  shows "normalizeRow (h\<lparr> mathRandom := f \<rparr>) index r n = normalizeRow h index r n"
    and "snd (normalizeRow h index r n) = n"
  using assms by (simp_all add: normalizeRow_def parsed_random Let_def)

lemma normalizeRows_random:
  assumes "\<forall>r\<in>set rs. parsedRevenue h r \<noteq> 0 \<and> parsedVolume h r \<noteq> 0"
  shows "normalizeRows (h\<lparr> mathRandom := f \<rparr>) index rs n = normalizeRows h index rs n"
  using assms
proof (induction rs arbitrary: index n)
  case Nil
  then show ?case by simp
next
  case (Cons r rs)
  then have a: "parsedRevenue h r \<noteq> 0" "parsedVolume h r \<noteq> 0"
    and b: "\<forall>r\<in>set rs. parsedRevenue h r \<noteq> 0 \<and> parsedVolume h r \<noteq> 0" by simp_all
  show ?case
    by (simp add: normalizeRow_random(1) [OF a] Cons.IH [OF b] split: prod.splits)
qed

lemma rest_random:
  "metaOf (h\<lparr> mathRandom := f \<rparr>) ds = metaOf h ds"
  "infoOf (h\<lparr> mathRandom := f \<rparr>) xs cols = infoOf h xs cols"
  "metaOf0 (h\<lparr> mathRandom := f \<rparr>) ds0 = metaOf0 h ds0"
  by (simp_all add: metaOf_def infoOf_def metaOf0_def uniqueSortedYears_def)

lemma texts0_random:
  "revenueText0 (h\<lparr> mathRandom := f \<rparr>) r = revenueText0 h r"
  "volumeText0 (h\<lparr> mathRandom := f \<rparr>) r = volumeText0 h r"
  "parseFloatTruthy (h\<lparr> mathRandom := f \<rparr>) s = parseFloatTruthy h s"
  "getWeekFromMonth (h\<lparr> mathRandom := f \<rparr>) v = getWeekFromMonth h v"
  by (simp_all add: revenueText0_def volumeText0_def parseFloatTruthy_def getWeekFromMonth_def
        jsString_random split: option.splits jsval.splits)

lemma normalizeRow0_random:
  assumes "parseFloatTruthy h (revenueText0 h r) \<noteq> None"
    and "parseFloatTruthy h (volumeText0 h r) \<noteq> None"
  shows "normalizeRow0 (h\<lparr> mathRandom := f \<rparr>) index r n = normalizeRow0 h index r n"
  using assms by (auto simp add: normalizeRow0_def parsed_random texts0_random Let_def)

lemma normalizeRows0_random:
  assumes "\<forall>r\<in>set rs. parseFloatTruthy h (revenueText0 h r) \<noteq> None
                     \<and> parseFloatTruthy h (volumeText0 h r) \<noteq> None"
  shows "normalizeRows0 (h\<lparr> mathRandom := f \<rparr>) index rs n = normalizeRows0 h index rs n"
  using assms
proof (induction rs arbitrary: index n)
  case Nil
  then show ?case by simp
next
  case (Cons r rs)
  then have a: "parseFloatTruthy h (revenueText0 h r) \<noteq> None"
      "parseFloatTruthy h (volumeText0 h r) \<noteq> None"
    and b: "\<forall>r\<in>set rs. parseFloatTruthy h (revenueText0 h r) \<noteq> None
                     \<and> parseFloatTruthy h (volumeText0 h r) \<noteq> None" by simp_all
  have "snd (normalizeRow0 h index r n) = n"
    using a by (auto simp add: normalizeRow0_def Let_def)
  then show ?case
    by (simp add: normalizeRow0_random [OF a] Cons.IH [OF b] split: prod.splits)
qed

text \<open>
  C8, as the code has it. Neither parser takes a seed: a missing or unparseable figure is
  replaced through \<^verbatim>\<open>Math.random()\<close>. When every row of the workbook carries a revenue and
  a volume that parse (to a positive number in the richer parser, to a non-zero number in
  the older one), the result does not depend on what \<^verbatim>\<open>Math.random()\<close> returns: two runs
  on the same workbook under the same clock give the same result.
\<close>

theorem parse_ignores_random_when_figures_parse:
  "((\<forall>r\<in>set jsonData. parsedRevenue h r \<noteq> 0 \<and> parsedVolume h r \<noteq> 0)
      \<longrightarrow> parseExcelFile (h\<lparr> mathRandom := f \<rparr>) jsonData = parseExcelFile h jsonData)
   \<and> ((\<forall>r\<in>set jsonData0. parseFloatTruthy h (revenueText0 h r) \<noteq> None
                         \<and> parseFloatTruthy h (volumeText0 h r) \<noteq> None)
      \<longrightarrow> parseExcelFile0 (h\<lparr> mathRandom := f \<rparr>) jsonData0 = parseExcelFile0 h jsonData0)"
proof (intro conjI impI)
  assume "\<forall>r\<in>set jsonData. parsedRevenue h r \<noteq> 0 \<and> parsedVolume h r \<noteq> 0"
  from normalizeRows_random [OF this]
  show "parseExcelFile (h\<lparr> mathRandom := f \<rparr>) jsonData = parseExcelFile h jsonData"
    by (simp add: parseExcelFile_def rest_random Let_def split: list.splits)
next
  assume "\<forall>r\<in>set jsonData0. parseFloatTruthy h (revenueText0 h r) \<noteq> None
                         \<and> parseFloatTruthy h (volumeText0 h r) \<noteq> None"
  from normalizeRows0_random [OF this]
  show "parseExcelFile0 (h\<lparr> mathRandom := f \<rparr>) jsonData0 = parseExcelFile0 h jsonData0"
    by (simp add: parseExcelFile0_def rest_random Let_def split: list.splits)
qed

lemma sample_figures:
  "\<forall>r\<in>set sampleRows. parsedRevenue sampleHost r \<noteq> 0 \<and> parsedVolume sampleHost r \<noteq> 0"
  by (simp add: sampleRows_def sampleHost_def parsedRevenue_def parsedVolume_def
        parsedFigure_def clean_samples)

lemma sample_figures0:
  "\<forall>r\<in>set sampleRows0. parseFloatTruthy sampleHost (revenueText0 sampleHost r) \<noteq> None
        \<and> parseFloatTruthy sampleHost (volumeText0 sampleHost r) \<noteq> None"
  by (simp add: sampleRows0_def sampleHost_def parseFloatTruthy_def revenueText0_def
        volumeText0_def clean_samples)

theorem parse_ignores_random_when_figures_parse_witness:
  "map (parsedRevenue sampleHost) sampleRows = [1000, 1000]
   \<and> map (parsedVolume sampleHost) sampleRows = [10, 10]
   \<and> parseExcelFile halfHost sampleRows = Inr sampleResult
   \<and> map (\<lambda>r. parseFloatTruthy sampleHost (revenueText0 sampleHost r)) sampleRows0
       = [Some 1000, Some 1000]
   \<and> map (\<lambda>r. parseFloatTruthy sampleHost (volumeText0 sampleHost r)) sampleRows0
       = [Some 10, Some 10]
   \<and> parseExcelFile0 halfHost sampleRows0 = Inr sampleResult0"
proof -
  have v: "map (parsedRevenue sampleHost) sampleRows = [1000, 1000]"
    "map (parsedVolume sampleHost) sampleRows = [10, 10]"
    by (simp_all add: sampleRows_def sampleHost_def parsedRevenue_def parsedVolume_def
          parsedFigure_def clean_samples)
  have v0: "map (\<lambda>r. parseFloatTruthy sampleHost (revenueText0 sampleHost r)) sampleRows0
       = [Some 1000, Some 1000]"
    "map (\<lambda>r. parseFloatTruthy sampleHost (volumeText0 sampleHost r)) sampleRows0
       = [Some 10, Some 10]"
    by (simp_all add: sampleRows0_def sampleHost_def parseFloatTruthy_def revenueText0_def
          volumeText0_def clean_samples)
  from parse_ignores_random_when_figures_parse
          [of sampleRows sampleHost "\<lambda>n. 1 / 2" sampleRows0]
        sample_figures sample_figures0
  have "parseExcelFile halfHost sampleRows = Inr sampleResult"
    and "parseExcelFile0 halfHost sampleRows0 = Inr sampleResult0"
    by (simp_all add: halfHost_def sample_parse sample_parse0)
  with v v0 show ?thesis by simp
qed

lemma noFigure_account:
  "acc_monthlyRevenue (normalizeRows h 0 noFigureRows 0 ! 0) = 500000 + mathRandom h 0 * 2000000
   \<and> acc_startMonth (normalizeRows h 0 noFigureRows 0 ! 0) = 8
   \<and> acc_startYear (normalizeRows h 0 noFigureRows 0 ! 0) = nowYear h
   \<and> acc_endYear (normalizeRows h 0 noFigureRows 0 ! 0) = nowYear h"
  by (simp add: noFigureRows_def normalizeRow_def parsedRevenue_def parsedVolume_def
        parsedFigure_def parseIntOr_def startMonthOf_def parseMonthFromText_def monthMap_def
        toLowerCase_def toLowerChar_def Let_def)

lemma noFigure_found: "\<not> length (foundColumns (map fst (hd noFigureRows))) < 2"
  by code_simp

lemma noFigure_last:
  assumes "parseExcelFile h noFigureRows = Inr res"
  shows "revenue (weekly res ! 51) = (500000 + mathRandom h 0 * 2000000) / 4.345"
proof -
  have n: "length noFigureRows = 1" by (simp add: noFigureRows_def)
  from nth_expandWeeks [of 0 "normalizeRows h 0 noFigureRows 0" 52]
  have "expandWeeks (normalizeRows h 0 noFigureRows 0) ! 51
          = weekRecord 52 (normalizeRows h 0 noFigureRows 0 ! 0)"
    by (simp add: length_normalizeRows n)
  with parseExcelFile_success [OF assms]
  have "weekly res ! 51 = weekRecord 52 (normalizeRows h 0 noFigureRows 0 ! 0)" by simp
  then show ?thesis
    using noFigure_account [of h] by (simp add: weekRecord_def Let_def)
qed

text \<open>
  C8 as stated fails: on a workbook whose one row has no revenue cell, two runs that differ
  only in what \<^verbatim>\<open>Math.random()\<close> returns (0 and 1/2) give different results.
\<close>

theorem parse_depends_on_random_counterexample:
  "parseExcelFile sampleHost noFigureRows \<noteq> parseExcelFile halfHost noFigureRows"
proof
  assume eq: "parseExcelFile sampleHost noFigureRows = parseExcelFile halfHost noFigureRows"
  have ne: "noFigureRows \<noteq> []" by (simp add: noFigureRows_def)
  from parseExcelFile_accepts [OF ne noFigure_found, of sampleHost]
  obtain res where r: "parseExcelFile sampleHost noFigureRows = Inr res" by blast
  with eq have r': "parseExcelFile halfHost noFigureRows = Inr res" by simp
  from noFigure_last [OF r] noFigure_last [OF r']
  show False by (simp add: halfHost_def sampleHost_def)
qed

subsection \<open>Column resolver and start month\<close>

lemma startsWith_iff: "startsWith s t \<longleftrightarrow> (\<exists>q. s = t @ q)"
  by (induction s t rule: startsWith.induct) auto

lemma includesStr_iff: "includesStr s t \<longleftrightarrow> (\<exists>p q. s = p @ t @ q)"
proof (induction s)
  case Nil
  then show ?case by simp
next
  case (Cons a s)
  have "(\<exists>p q. a # s = p @ t @ q) \<longleftrightarrow> (\<exists>q. a # s = t @ q) \<or> (\<exists>p q. s = p @ t @ q)"
  proof
    assume "\<exists>p q. a # s = p @ t @ q"
    then obtain p q where e: "a # s = p @ t @ q" by blast
    show "(\<exists>q. a # s = t @ q) \<or> (\<exists>p q. s = p @ t @ q)"
    proof (cases p)
      case Nil
      with e show ?thesis by auto
    next
      case (Cons b p')
      with e have "s = p' @ t @ q" by simp
      then show ?thesis by blast
    qed
  next
    assume "(\<exists>q. a # s = t @ q) \<or> (\<exists>p q. s = p @ t @ q)"
    then show "\<exists>p q. a # s = p @ t @ q"
    proof
      assume "\<exists>q. a # s = t @ q"
      then obtain q where "a # s = [] @ t @ q" by auto
      then show ?thesis by blast
    next
      assume "\<exists>p q. s = p @ t @ q"
      then obtain p q where "a # s = (a # p) @ t @ q" by auto
      then show ?thesis by blast
    qed
  qed
  with Cons show ?case by (simp add: startsWith_iff)
qed

lemma includesStr_lower:
  assumes "includesStr s t"
  shows "includesStr (toLowerCase s) (toLowerCase t)"
proof -
  from assms obtain p q where "s = p @ t @ q" by (auto simp add: includesStr_iff)
  then have "toLowerCase s = toLowerCase p @ toLowerCase t @ toLowerCase q"
    by (simp add: toLowerCase_def)
  then show ?thesis by (auto simp add: includesStr_iff)
qed

lemma length_filter_mono:
  assumes "\<And>x. P x \<Longrightarrow> Q x"
  shows "length (filter P xs) \<le> length (filter Q xs)"
  using assms by (induction xs) auto

lemma found_le_spec:
  "length (foundColumns fileColumns) \<le> length (specFoundColumns mappedColumns fileColumns)"
  unfolding foundColumns_def specFoundColumns_def
  by (rule length_filter_mono) (auto simp add: list_ex_iff dest: includesStr_lower)

lemma includesStr_refl: "includesStr s s"
  using includesStr_iff [of s s] by (metis append_Nil append_Nil2)

lemma found0_le_spec:
  "length (foundColumns0 fileColumns) \<le> length (specFoundColumns mappedColumns0 fileColumns)"
  unfolding foundColumns0_def specFoundColumns_def
  by (rule length_filter_mono)
     (auto simp add: list_ex_iff intro: includesStr_refl)

text \<open>
  C5, as the code has it. For a workbook with a first row: the richer parser counts a
  canonical header when some header of the file contains it or is contained in it,
  letter for letter (case matters), and with fewer than 2 counted it rejects with a
  message that lists the counted headers and all headers of the file; the older parser
  counts a canonical header only when the file has that very header, and with fewer than
  3 counted it rejects with a message that lists the counted headers alone. Whenever
  fewer than the threshold match with case ignored, fewer are counted by the code too.
\<close>

theorem resolver_rejects:
  assumes "jsonData = first # rest"
  shows "(length (foundColumns (map fst first)) < 2
          \<longrightarrow> parseExcelFile h jsonData
                = Inl (notEnoughColumns (foundColumns (map fst first)) (map fst first)))
    \<and> (length (foundColumns0 (map fst first)) < 3
          \<longrightarrow> parseExcelFile0 h jsonData
                = Inl (notEnoughColumns0 (foundColumns0 (map fst first))))
    \<and> (\<forall>col. col \<in> set (foundColumns (map fst first))
          \<longleftrightarrow> col \<in> set mappedColumns
              \<and> (\<exists>fileCol\<in>set (map fst first).
                    (\<exists>p q. fileCol = p @ col @ q) \<or> (\<exists>p q. col = p @ fileCol @ q)))
    \<and> (\<forall>col. col \<in> set (foundColumns0 (map fst first))
          \<longleftrightarrow> col \<in> set mappedColumns0 \<and> col \<in> set (map fst first))
    \<and> (length (specFoundColumns mappedColumns (map fst first)) < 2
          \<longrightarrow> length (foundColumns (map fst first)) < 2)
    \<and> (length (specFoundColumns mappedColumns0 (map fst first)) < 3
          \<longrightarrow> length (foundColumns0 (map fst first)) < 3)"
proof -
  have a: "length (foundColumns (map fst first)) < 2
          \<longrightarrow> parseExcelFile h jsonData
                = Inl (notEnoughColumns (foundColumns (map fst first)) (map fst first))"
    using assms by (simp add: parseExcelFile_def Let_def)
  have b: "length (foundColumns0 (map fst first)) < 3
          \<longrightarrow> parseExcelFile0 h jsonData
                = Inl (notEnoughColumns0 (foundColumns0 (map fst first)))"
    using assms by (simp add: parseExcelFile0_def Let_def)
  have c: "\<forall>col. col \<in> set (foundColumns (map fst first))
          \<longleftrightarrow> col \<in> set mappedColumns
              \<and> (\<exists>fileCol\<in>set (map fst first).
                    (\<exists>p q. fileCol = p @ col @ q) \<or> (\<exists>p q. col = p @ fileCol @ q))"
    by (simp add: foundColumns_def list_ex_iff includesStr_iff)
  have d: "\<forall>col. col \<in> set (foundColumns0 (map fst first))
          \<longleftrightarrow> col \<in> set mappedColumns0 \<and> col \<in> set (map fst first)"
    by (auto simp add: foundColumns0_def)
  have e: "length (specFoundColumns mappedColumns (map fst first)) < 2
          \<longrightarrow> length (foundColumns (map fst first)) < 2"
    using found_le_spec [of "map fst first"] by simp
  have f: "length (specFoundColumns mappedColumns0 (map fst first)) < 3
          \<longrightarrow> length (foundColumns0 (map fst first)) < 3"
    using found0_le_spec [of "map fst first"] by simp
  from a b c d e f show ?thesis by blast
qed

lemma lowerCase_found:
  "foundColumns [''industry''] = []"
  "foundColumns0 [''industry''] = []"
  "specFoundColumns mappedColumns [''industry''] = [''Industry'']"
  "specFoundColumns mappedColumns0 [''industry''] = [''Industry'']"
  by code_simp+

theorem resolver_rejects_witness:
  "lowerCaseRows = hd lowerCaseRows # tl lowerCaseRows
   \<and> length (foundColumns (map fst (hd lowerCaseRows))) < 2
   \<and> parseExcelFile sampleHost lowerCaseRows
       = Inl ''Could not find enough expected columns. Found: . Available: industry''
   \<and> length (foundColumns0 (map fst (hd lowerCaseRows))) < 3
   \<and> parseExcelFile0 sampleHost lowerCaseRows
       = Inl ''Could not find enough expected columns. Found: ''
   \<and> length (specFoundColumns mappedColumns (map fst (hd lowerCaseRows))) < 2
   \<and> length (specFoundColumns mappedColumns0 (map fst (hd lowerCaseRows))) < 3"
proof -
  have s: "lowerCaseRows = hd lowerCaseRows # tl lowerCaseRows"
    by (simp add: lowerCaseRows_def)
  have c: "map fst (hd lowerCaseRows) = [''industry'']" by (simp add: lowerCaseRows_def)
  from resolver_rejects [OF s, of sampleHost] lowerCase_found(1,2) c
  have "parseExcelFile sampleHost lowerCaseRows
          = Inl (notEnoughColumns [] (map fst (hd lowerCaseRows)))"
    and "parseExcelFile0 sampleHost lowerCaseRows = Inl (notEnoughColumns0 [])"
    by simp_all
  then show ?thesis
    using s lowerCase_found
    by (simp add: c notEnoughColumns_def notEnoughColumns0_def)
qed

text \<open>
  C5 as stated fails: the header \<^verbatim>\<open>industry\<close> matches \<^verbatim>\<open>Industry\<close> when case is ignored, yet
  the richer parser's message lists no matched header; and the older parser's message
  carries no list of the available headers.
\<close>

theorem resolver_counterexample:
  "length (specFoundColumns mappedColumns (map fst (hd lowerCaseRows))) < 2
   \<and> specFoundColumns mappedColumns (map fst (hd lowerCaseRows)) = [''Industry'']
   \<and> parseExcelFile sampleHost lowerCaseRows
       = Inl (notEnoughColumns [] (map fst (hd lowerCaseRows)))
   \<and> notEnoughColumns [] (map fst (hd lowerCaseRows))
       \<noteq> notEnoughColumns (specFoundColumns mappedColumns (map fst (hd lowerCaseRows)))
            (map fst (hd lowerCaseRows))
   \<and> length (specFoundColumns mappedColumns0 (map fst (hd lowerCaseRows))) < 3
   \<and> parseExcelFile0 sampleHost lowerCaseRows
       = Inl ''Could not find enough expected columns. Found: ''"
proof -
  have c: "map fst (hd lowerCaseRows) = [''industry'']" by (simp add: lowerCaseRows_def)
  have p: "parseExcelFile sampleHost lowerCaseRows
       = Inl (notEnoughColumns [] (map fst (hd lowerCaseRows)))"
    using lowerCase_found(1)
    by (simp add: parseExcelFile_def lowerCaseRows_def Let_def)
  have p0: "parseExcelFile0 sampleHost lowerCaseRows
       = Inl ''Could not find enough expected columns. Found: ''"
    using lowerCase_found(2)
    by (simp add: parseExcelFile0_def lowerCaseRows_def Let_def notEnoughColumns0_def)
  have n: "notEnoughColumns [] [''industry''] \<noteq> notEnoughColumns [''Industry''] [''industry'']"
    by (simp add: notEnoughColumns_def)
  from p p0 n show ?thesis
    by (simp add: lowerCase_found(3,4) c)
qed

lemma find_in_set: "List.find P xs = Some x \<Longrightarrow> x \<in> set xs"
  by (induction xs) (auto split: if_splits)

lemma parseMonthFromText_range:
  assumes "1 \<le> nowMonth h" and "nowMonth h \<le> 12"
  shows "1 \<le> parseMonthFromText h v \<and> parseMonthFromText h v \<le> 12"
proof -
  have m: "\<forall>(m, num)\<in>set monthMap. 1 \<le> num \<and> num \<le> 12"
    by (simp add: monthMap_def)
  show ?thesis
    using assms m
    by (auto simp add: parseMonthFromText_def split: option.splits jsval.splits
          dest!: find_in_set)
qed

lemma parseMonthFromText_August: "parseMonthFromText h (JStr ''August'') = 8"
  by (simp add: parseMonthFromText_def monthMap_def toLowerCase_def toLowerChar_def)

text \<open>
  C4, at a row with no \<^verbatim>\<open>Forecasted TXN Start (Month)\<close> cell, read in March: the start
  month is 8, the month of the literal \<^verbatim>\<open>'August'\<close> that line 102 substitutes, not the
  current month.
\<close>

theorem absent_month_is_august:
  "map_of (hd noFigureRows) ''Forecasted TXN Start (Month)'' = None
   \<and> nowMonth sampleHost = 3
   \<and> startMonthOf sampleHost (hd noFigureRows) = 8
   \<and> acc_startMonth (normalizeRows sampleHost 0 noFigureRows 0 ! 0) = 8"
  using noFigure_account [of sampleHost]
  by (simp add: startMonthOf_def parseMonthFromText_August noFigureRows_def sampleHost_def)

end
